theory Spec2Isabelle
  imports Main
begin

section \<open>Values\<close>

text \<open>
  A non-nil value of Go's interface type \<open>error\<close>, by its dynamic type. A nil
  \<open>error\<close> is \<open>None\<close> of \<open>error option\<close>.
  \<^item> \<open>ErrorsNew m\<close>: what \<open>errors.New(m)\<close> of go-errors returns;
  \<^item> \<open>Httperror status err\<close>: a \<open>httperror\<close> struct value (errors.go), as the
    assertions panic with;
  \<^item> \<open>HttperrorPtr status err\<close>: a \<open>*httperror\<close>, as \<open>NewError\<close> returns;
  \<^item> \<open>ForeignHttpError st m c\<close>: a value of a type of another package that has the
    methods \<open>Status\<close>, \<open>Error\<close> and \<open>Cause\<close>, which return \<open>st\<close>, \<open>m\<close> and \<open>c\<close>;
  \<^item> \<open>OtherError m c\<close>: any other error, with message \<open>m\<close>; \<open>c\<close> is \<open>Some x\<close> when
    its type has a method \<open>Cause\<close>, which returns \<open>x\<close>.
  A struct is a value: a pointer is told from a value only where a type switch does.
\<close>

datatype error =
    ErrorsNew string
  | Httperror int "error option"
  | HttperrorPtr int "error option"
  | ForeignHttpError int string "error option"
  | OtherError string "error option option"

text \<open>
  A value of \<open>interface{}\<close>. \<open>AssersionError p u\<close> is a struct value of the type
  \<open>assert.AssersionError\<close> of go-assert, which is not part of this repository: \<open>p\<close> is
  the error that a pointer to it is (the source passes \<open>&herr\<close> where an \<open>error\<close> is
  expected) and \<open>u\<close> is what its \<open>Unwrap\<close> returns. \<open>AOther n\<close> is a value of any
  other type.
\<close>

datatype any =
    ANil
  | AString string
  | AInt int
  | AError error
  | AssersionError error any
  | AOther nat

text \<open>An \<open>error\<close> passed where an \<open>interface{}\<close> is expected.\<close>

fun iface :: "error option \<Rightarrow> any" where
  "iface None = ANil"
| "iface (Some e) = AError e"

datatype json =
    JNull
  | JBool bool
  | JNumber int
  | JString string
  | JArray "json list"
  | JObject "(string \<times> json) list"

section \<open>errors.go: httperror\<close>

text \<open>
  The three methods, dispatched on the dynamic type; the \<open>httperror\<close> cases are those of
  errors.go. \<open>Status\<close> and \<open>Cause\<close> are \<open>None\<close> where the type has no such method.
  \<open>Error\<close> is \<open>None\<close> where the call panics: \<open>he.err.Error()\<close> on a nil \<open>he.err\<close>.
\<close>

fun Status :: "error \<Rightarrow> int option" where
  "Status (Httperror status err) = Some status"
| "Status (HttperrorPtr status err) = Some status"
| "Status (ForeignHttpError st m c) = Some st"
| "Status (ErrorsNew m) = None"
| "Status (OtherError m c) = None"

fun Error :: "error \<Rightarrow> string option" where
  "Error (Httperror status err) = (case err of None \<Rightarrow> None | Some e \<Rightarrow> Error e)"
| "Error (HttperrorPtr status err) = (case err of None \<Rightarrow> None | Some e \<Rightarrow> Error e)"
| "Error (ForeignHttpError st m c) = Some m"
| "Error (ErrorsNew m) = Some m"
| "Error (OtherError m c) = Some m"

text \<open>
  \<open>errors.New\<close> belongs to go-errors, which is not part of this repository; its result
  is taken to be a generic error that has a message and no \<open>Cause\<close> method.
\<close>

fun Cause :: "error \<Rightarrow> error option option" where
  "Cause (Httperror status err) = Some err"
| "Cause (HttperrorPtr status err) = Some err"
| "Cause (ForeignHttpError st m c) = Some c"
| "Cause (ErrorsNew m) = None"
| "Cause (OtherError m c) = c"

text \<open>
  \<open>Cause\<close> of the second errors file (src/unnamed/part\_002): the wrapped error when it
  is an \<open>errors.ErrorWithCause\<close> (it has a \<open>Cause\<close> method), nil otherwise.
\<close>

fun Cause_part_002 :: "error \<Rightarrow> error option option" where
  "Cause_part_002 (Httperror status err) =
     Some (case err of None \<Rightarrow> None
           | Some e \<Rightarrow> (case Cause e of Some c \<Rightarrow> Some e | None \<Rightarrow> None))"
| "Cause_part_002 (HttperrorPtr status err) =
     Some (case err of None \<Rightarrow> None
           | Some e \<Rightarrow> (case Cause e of Some c \<Rightarrow> Some e | None \<Rightarrow> None))"
| "Cause_part_002 e = Cause e"

definition NewError :: "int \<Rightarrow> error option \<Rightarrow> error option" where
  "NewError status err = Some (HttperrorPtr status err)"

text \<open>
  A call of one of the methods on a receiver. The receivers are values
  (\<open>func (he httperror) ...\<close>): the call works on a copy, and the receiver after the call
  is the receiver before it.
\<close>

datatype accessor = CallStatus | CallError | CallCause

datatype returned =
    RInt int
  | RString string
  | RError "error option"
  | RPanic
  | RNoMethod

fun call :: "accessor \<Rightarrow> error \<Rightarrow> returned \<times> error" where
  "call CallStatus he = ((case Status he of Some st \<Rightarrow> RInt st | None \<Rightarrow> RNoMethod), he)"
| "call CallError he = ((case Error he of Some m \<Rightarrow> RString m | None \<Rightarrow> RPanic), he)"
| "call CallCause he = ((case Cause he of Some c \<Rightarrow> RError c | None \<Rightarrow> RNoMethod), he)"

fun calls :: "accessor list \<Rightarrow> error \<Rightarrow> returned list \<times> error" where
  "calls [] he = ([], he)"
| "calls (m # ms) he =
     (case call m he of (r, he') \<Rightarrow> (case calls ms he' of (rs, he'') \<Rightarrow> (r # rs, he'')))"

section \<open>Normalisation: toErr\<close>

text \<open>\<open>toErr\<close> of src/unnamed/part\_001; the first \<open>toErr\<close> of part\_000 is the same.\<close>

fun toErr :: "any \<Rightarrow> error option" where
  "toErr (AString v) = Some (ErrorsNew v)"
| "toErr (AError v) = Some v"
| "toErr _ = Some (ErrorsNew ''missing error details'')"

text \<open>
  The second \<open>toErr\<close> of part\_000, which has one more case, after \<open>case error\<close>:
  \<open>case assert.AssersionError: er = toErr(v.Unwrap())\<close>.
\<close>

fun toErr_alt :: "any \<Rightarrow> error option" where
  "toErr_alt (AString v) = Some (ErrorsNew v)"
| "toErr_alt (AError v) = Some v"
| "toErr_alt (AssersionError p u) = toErr_alt u"
| "toErr_alt _ = Some (ErrorsNew ''missing error details'')"

section \<open>The world of one request\<close>

text \<open>
  The process-wide log (the lines \<open>log.Printf\<close> and \<open>slog.Error\<close> were called with)
  and the output sink \<open>w\<close> of the request, as the calls it received: the header
  entries, the status codes given to \<open>WriteHeader\<close>, and the values given to the JSON
  encoder, which is a black box. An object lists its members in the order of the map
  literal of the source.
\<close>

datatype logline =
    LogPrintf string "any list"
  | SlogError string "(string \<times> any) list"

record world =
  logs :: "logline list"
  header :: "(string \<times> string) list"
  status_codes :: "int list"
  body :: "json list"

datatype outcome = Returns | Panics any

definition log_Printf :: "string \<Rightarrow> any list \<Rightarrow> world \<Rightarrow> world" where
  "log_Printf format args s = s\<lparr>logs := logs s @ [LogPrintf format args]\<rparr>"

definition slog_Error :: "string \<Rightarrow> (string \<times> any) list \<Rightarrow> world \<Rightarrow> world" where
  "slog_Error msg args s = s\<lparr>logs := logs s @ [SlogError msg args]\<rparr>"

definition Header_Add :: "string \<Rightarrow> string \<Rightarrow> world \<Rightarrow> world" where
  "Header_Add k v s = s\<lparr>header := header s @ [(k, v)]\<rparr>"

definition Header_Set :: "string \<Rightarrow> string \<Rightarrow> world \<Rightarrow> world" where
  "Header_Set k v s = s\<lparr>header := filter (\<lambda>kv. fst kv \<noteq> k) (header s) @ [(k, v)]\<rparr>"

definition WriteHeader :: "int \<Rightarrow> world \<Rightarrow> world" where
  "WriteHeader statusCode s = s\<lparr>status_codes := status_codes s @ [statusCode]\<rparr>"

definition Encode :: "json \<Rightarrow> world \<Rightarrow> world" where
  "Encode v s = s\<lparr>body := body s @ [v]\<rparr>"

text \<open>The value of the run-time panic of a method call on a nil interface.\<close>

definition nil_dereference :: any where
  "nil_dereference =
     AError (OtherError ''runtime error: invalid memory address or nil pointer dereference'' None)"

section \<open>httputil.go: the response writers\<close>

text \<open>
  The type switch of \<open>ErrorWithStatus\<close>. Its third case, \<open>case httperror: err_ = e.Cause()\<close>,
  is never taken: a \<open>httperror\<close> is an \<open>error\<close>, and \<open>case error\<close> comes first.
\<close>

fun ErrorWithStatus_switch :: "any \<Rightarrow> error option" where
  "ErrorWithStatus_switch (AError e) = Some e"
| "ErrorWithStatus_switch (AString e) = Some (ErrorsNew e)"
| "ErrorWithStatus_switch _ = Some (ErrorsNew ''unknown error occured'')"

definition ErrorWithStatus :: "int \<Rightarrow> any \<Rightarrow> world \<Rightarrow> outcome \<times> world" where
  "ErrorWithStatus statusCode err s =
     (let s1 = slog_Error ''failed'' [(''status'', AInt statusCode), (''error'', err)] s;
          err' = ErrorWithStatus_switch err;
          s2 = Header_Add ''Content-Type'' ''application/json'' s1;
          s3 = WriteHeader statusCode s2
      in case err' of
           None \<Rightarrow> (Panics nil_dereference, s3)
         | Some e \<Rightarrow>
             (case Error e of
                None \<Rightarrow> (Panics nil_dereference, s3)
              | Some m \<Rightarrow>
                  (Returns, Encode (JObject [(''ok'', JBool False), (''message'', JString m)]) s3)))"

definition Error_resp :: "any \<Rightarrow> world \<Rightarrow> outcome \<times> world" where
  "Error_resp err s = ErrorWithStatus 500 err s"

definition JsonWithStatus :: "int \<Rightarrow> json \<Rightarrow> world \<Rightarrow> outcome \<times> world" where
  "JsonWithStatus statusCode data s =
     (let s1 = Header_Set ''Content-Type'' ''application/json'' s;
          s2 = Header_Set ''X-Content-Type-Options'' ''nosniff'' s1;
          s3 = WriteHeader statusCode s2
      in (Returns, Encode data s3))"

definition Json :: "json \<Rightarrow> world \<Rightarrow> outcome \<times> world" where
  "Json data s = JsonWithStatus 200 data s"

definition MessageWithStatus :: "int \<Rightarrow> string \<Rightarrow> world \<Rightarrow> outcome \<times> world" where
  "MessageWithStatus statusCode message s =
     JsonWithStatus statusCode (JObject [(''ok'', JBool True), (''message'', JString message)]) s"

definition Message :: "string \<Rightarrow> world \<Rightarrow> outcome \<times> world" where
  "Message message s =
     JsonWithStatus 200 (JObject [(''ok'', JBool True), (''message'', JString message)]) s"

definition OK :: "world \<Rightarrow> outcome \<times> world" where
  "OK s = JsonWithStatus 200 (JObject [(''ok'', JBool True)]) s"

definition InternalErrorWithStatus :: "int \<Rightarrow> error option \<Rightarrow> world \<Rightarrow> outcome \<times> world" where
  "InternalErrorWithStatus status err s =
     (case err of
        None \<Rightarrow> (Panics nil_dereference, s)
      | Some e \<Rightarrow>
          (case Error e of
             None \<Rightarrow> (Panics nil_dereference, s)
           | Some m \<Rightarrow>
               (let s1 = (case Cause e of
                            Some c \<Rightarrow> slog_Error (''internal error: '' @ m) [(''cause'', iface c)] s
                          | None \<Rightarrow> slog_Error (''internal error: '' @ m) [] s);
                    s2 = Header_Add ''Content-Type'' ''application/json'' s1;
                    s3 = WriteHeader status s2
                in (Returns,
                    Encode (JObject [(''ok'', JBool False),
                                     (''message'', JString ''internal server error'')]) s3))))"

definition InternalError :: "error option \<Rightarrow> world \<Rightarrow> outcome \<times> world" where
  "InternalError err s = InternalErrorWithStatus 500 err s"

section \<open>The assertions (src/unnamed/part\_001)\<close>

definition AssertWithStatus :: "bool \<Rightarrow> int \<Rightarrow> any \<Rightarrow> world \<Rightarrow> outcome \<times> world" where
  "AssertWithStatus condition status err s =
     (if \<not> condition
      then (Panics (AError (Httperror status (toErr err))),
            log_Printf ''AssersionError(HTTP: %v): %s'' [AInt status, err] s)
      else (Returns, s))"

definition Assert :: "bool \<Rightarrow> any \<Rightarrow> world \<Rightarrow> outcome \<times> world" where
  "Assert condition err s = AssertWithStatus condition 500 err s"

definition AssertErrorIsNilWithStatus :: "int \<Rightarrow> any \<Rightarrow> world \<Rightarrow> outcome \<times> world" where
  "AssertErrorIsNilWithStatus status err s =
     (if err \<noteq> ANil
      then (Panics (AError (Httperror status (toErr err))),
            log_Printf ''AssersionError(HTTP: %v): %s'' [AInt status, err] s)
      else (Returns, s))"

definition AssertErrorIsNil :: "error option \<Rightarrow> world \<Rightarrow> outcome \<times> world" where
  "AssertErrorIsNil err s = AssertErrorIsNilWithStatus 500 (iface err) s"

section \<open>The recovery middleware\<close>

text \<open>
  The type assertion \<open>r.(HttpError)\<close>: it succeeds on a value whose type has the three
  methods of the interface, and is paired here with what \<open>herr.Status()\<close> returns.
\<close>

fun as_HttpError :: "any \<Rightarrow> (error \<times> int) option" where
  "as_HttpError (AError e) = (case Status e of Some st \<Rightarrow> Some (e, st) | None \<Rightarrow> None)"
| "as_HttpError _ = None"

text \<open>
  The classified branch of the deferred function, for a recovered \<open>herr\<close> whose
  \<open>Status()\<close> is \<open>st\<close>: the internal-error writer from 500 on, the error writer below.
\<close>

definition respond :: "error \<Rightarrow> int \<Rightarrow> world \<Rightarrow> outcome \<times> world" where
  "respond herr st s1 =
     (if st \<ge> 500 then InternalErrorWithStatus st (Some herr) s1
      else ErrorWithStatus st (AError herr) s1)"

text \<open>
  A run of the wrapped handler: how it ended, the world it left, and how many times the
  \<open>cancel\<close> of the scope made at entry (\<open>context.WithCancel\<close>) was called. The inner
  handler \<open>next\<close> is a function of the world; \<open>cancel\<close> is a local of the middleware's
  closure, which the handler cannot reach.
\<close>

record run =
  result :: outcome
  final :: world
  cancel_calls :: nat

type_synonym handler = "world \<Rightarrow> outcome \<times> world"

text \<open>The call of \<open>cancel\<close>, counted in the run.\<close>

definition cancel :: "run \<Rightarrow> run" where
  "cancel x = x\<lparr>cancel_calls := cancel_calls x + 1\<rparr>"

text \<open>
  \<open>MiddlewareHTTPAssersionRecoverer\<close> of part\_001. Its deferred function runs when
  \<open>next.ServeHTTP\<close> has returned or panicked, with \<open>r\<close> what \<open>recover()\<close> returns and
  \<open>s1\<close> the world the handler left: \<open>r\<close> is nil when the handler returned, and the
  function then does nothing. (A handler that panics with nil is treated the same way by
  the test \<open>r != nil\<close>.) A panic of one of the writers inside the deferred function
  leaves it before \<open>cancel()\<close> is reached.
\<close>

definition MiddlewareHTTPAssersionRecoverer_deferred :: "any \<Rightarrow> world \<Rightarrow> run" where
  "MiddlewareHTTPAssersionRecoverer_deferred r s1 =
     (if r \<noteq> ANil then
        (case as_HttpError r of
           Some (herr, st) \<Rightarrow>
             (case respond herr st s1 of
                (Returns, s2) \<Rightarrow> cancel \<lparr>result = Returns, final = s2, cancel_calls = 0\<rparr>
              | (Panics p, s2) \<Rightarrow> \<lparr>result = Panics p, final = s2, cancel_calls = 0\<rparr>)
         | None \<Rightarrow>
             \<lparr>result = Panics r, final = slog_Error ''update'' [(''error'', r)] s1,
              cancel_calls = 0\<rparr>)
      else \<lparr>result = Returns, final = s1, cancel_calls = 0\<rparr>)"

definition MiddlewareHTTPAssersionRecoverer :: "handler \<Rightarrow> world \<Rightarrow> run" where
  "MiddlewareHTTPAssersionRecoverer next s =
     (case next s of
        (Returns, s1) \<Rightarrow> MiddlewareHTTPAssersionRecoverer_deferred ANil s1
      | (Panics r, s1) \<Rightarrow> MiddlewareHTTPAssersionRecoverer_deferred r s1)"

text \<open>
  The first \<open>MiddlewareHTTPAssertionRecoverer\<close> of part\_000: the same, with another
  log message.
\<close>

definition MiddlewareHTTPAssertionRecoverer_deferred :: "any \<Rightarrow> world \<Rightarrow> run" where
  "MiddlewareHTTPAssertionRecoverer_deferred r s1 =
     (if r \<noteq> ANil then
        (case as_HttpError r of
           Some (herr, st) \<Rightarrow>
             (case respond herr st s1 of
                (Returns, s2) \<Rightarrow> cancel \<lparr>result = Returns, final = s2, cancel_calls = 0\<rparr>
              | (Panics p, s2) \<Rightarrow> \<lparr>result = Panics p, final = s2, cancel_calls = 0\<rparr>)
         | None \<Rightarrow>
             \<lparr>result = Panics r,
              final = slog_Error ''unexpected panic'' [(''error'', r)] s1,
              cancel_calls = 0\<rparr>)
      else \<lparr>result = Returns, final = s1, cancel_calls = 0\<rparr>)"

definition MiddlewareHTTPAssertionRecoverer :: "handler \<Rightarrow> world \<Rightarrow> run" where
  "MiddlewareHTTPAssertionRecoverer next s =
     (case next s of
        (Returns, s1) \<Rightarrow> MiddlewareHTTPAssertionRecoverer_deferred ANil s1
      | (Panics r, s1) \<Rightarrow> MiddlewareHTTPAssertionRecoverer_deferred r s1)"

text \<open>
  The second \<open>MiddlewareHTTPAssertionRecoverer\<close> of part\_000. Its deferred function
  starts with \<open>defer cancel()\<close>, so that \<open>cancel\<close> is called when the function is left,
  however that happens. It switches on the concrete type of the recovered value: a
  \<open>httperror\<close> struct value, an \<open>assert.AssersionError\<close>, any other error (a \<open>*httperror\<close>
  is one of these), anything else. \<open>sprintf\<close> stands for the formatting of
  \<open>fmt.Errorf("unknown error object %s", r)\<close>.
\<close>

fun recovered_switch :: "(string \<Rightarrow> any \<Rightarrow> string) \<Rightarrow> any \<Rightarrow> world \<Rightarrow> outcome \<times> world" where
  "recovered_switch sprintf (AError (Httperror status err)) s =
     respond (Httperror status err) status s"
| "recovered_switch sprintf (AssersionError p u) s = InternalError (Some p) s"
| "recovered_switch sprintf (AError herr) s = InternalError (Some herr) s"
| "recovered_switch sprintf r s =
     InternalError (Some (OtherError (sprintf ''unknown error object %s'' r) None)) s"

definition MiddlewareHTTPAssertionRecoverer_alt_deferred ::
    "(string \<Rightarrow> any \<Rightarrow> string) \<Rightarrow> any \<Rightarrow> world \<Rightarrow> run" where
  "MiddlewareHTTPAssertionRecoverer_alt_deferred sprintf r s1 =
     cancel
       (if r \<noteq> ANil then
          (case recovered_switch sprintf r
                  (log_Printf ''checking the error object %T'' [r] s1) of
             (out, s2) \<Rightarrow> \<lparr>result = out, final = s2, cancel_calls = 0\<rparr>)
        else \<lparr>result = Returns, final = s1, cancel_calls = 0\<rparr>)"

definition MiddlewareHTTPAssertionRecoverer_alt ::
    "(string \<Rightarrow> any \<Rightarrow> string) \<Rightarrow> handler \<Rightarrow> world \<Rightarrow> run" where
  "MiddlewareHTTPAssertionRecoverer_alt sprintf next s =
     (case next s of
        (Returns, s1) \<Rightarrow> MiddlewareHTTPAssertionRecoverer_alt_deferred sprintf ANil s1
      | (Panics r, s1) \<Rightarrow> MiddlewareHTTPAssertionRecoverer_alt_deferred sprintf r s1)"

text \<open>The world of a request nothing has been written or logged in.\<close>

definition fresh_world :: world where
  "fresh_world = \<lparr>logs = [], header = [], status_codes = [], body = []\<rparr>"

text \<open>Two handlers for examples: one returns at once, one panics with \<open>r\<close>.\<close>

definition returns_normally :: handler where
  "returns_normally s = (Returns, s)"

definition panics_with :: "any \<Rightarrow> handler" where
  "panics_with r s = (Panics r, s)"

text \<open>A stand-in for the formatting of \<open>fmt\<close> in examples: it keeps the format string.\<close>

definition no_formatting :: "string \<Rightarrow> any \<Rightarrow> string" where
  "no_formatting format a = format"

section \<open>Properties\<close>

subsection \<open>Normalisation\<close>

lemma toErr_alt_is_Some: "\<exists>e. toErr_alt x = Some e"
  by (induction x rule: toErr_alt.induct) simp_all

lemma toErr_alt_cases:
  "toErr_alt x = (case x of AssersionError p u \<Rightarrow> toErr_alt u | _ \<Rightarrow> toErr x)"
  by (cases x) simp_all

text \<open>
  Claim C7, as amended. \<open>toErr\<close> is total and idempotent: for every input it returns a
  non-nil error without panicking, and \<open>toErr\<close> of its own result is that result. A
  string yields an error with that message and an error value yields itself. With
  \<open>toErr\<close> of part\_001 (and the first one of part\_000) any other input yields the error
  with the fixed message "missing error details". The second \<open>toErr\<close> of part\_000 has a
  case of its own for an \<open>assert.AssersionError\<close> value, which it normalises through what
  the value unwraps; on every other input it agrees with the first.
\<close>

theorem toErr_total_idempotent:
  "toErr x = (case x of AString v \<Rightarrow> Some (ErrorsNew v) | AError v \<Rightarrow> Some v
              | _ \<Rightarrow> Some (ErrorsNew ''missing error details''))
   \<and> toErr x \<noteq> None
   \<and> toErr (iface (toErr x)) = toErr x
   \<and> toErr_alt x = (case x of AssersionError p u \<Rightarrow> toErr_alt u | _ \<Rightarrow> toErr x)
   \<and> toErr_alt x \<noteq> None
   \<and> toErr_alt (iface (toErr_alt x)) = toErr_alt x"
proof -
  obtain e where e: "toErr x = Some e"
    by (cases x) simp_all
  obtain e' where e': "toErr_alt x = Some e'"
    using toErr_alt_is_Some by blast
  have shape: "toErr x = (case x of AString v \<Rightarrow> Some (ErrorsNew v) | AError v \<Rightarrow> Some v
              | _ \<Rightarrow> Some (ErrorsNew ''missing error details''))"
    by (cases x) simp_all
  have total: "toErr x \<noteq> None"
    using e by simp
  have idem: "toErr (iface (toErr x)) = toErr x"
    using e by simp
  have total': "toErr_alt x \<noteq> None"
    using e' by simp
  have idem': "toErr_alt (iface (toErr_alt x)) = toErr_alt x"
    using e' by simp
  show ?thesis
    using shape total idem toErr_alt_cases [of x] total' idem' by blast
qed

theorem toErr_total_idempotent_witness:
  "toErr (AString ''boom'') = Some (ErrorsNew ''boom'')
   \<and> toErr (iface (toErr (AInt 3))) = Some (ErrorsNew ''missing error details'')
   \<and> toErr_alt (AssersionError (OtherError ''assert'' None) (AError (ErrorsNew ''disk full''))) =
       Some (ErrorsNew ''disk full'')"
  using toErr_total_idempotent [of "AString ''boom''"] toErr_total_idempotent [of "AInt 3"]
    toErr_total_idempotent
      [of "AssersionError (OtherError ''assert'' None) (AError (ErrorsNew ''disk full''))"]
  by simp

theorem toErr_alt_AssersionError_counterexample:
  "toErr_alt (AssersionError (OtherError ''assertion failed'' None)
                (AError (ErrorsNew ''boom''))) = Some (ErrorsNew ''boom'')
   \<and> toErr_alt (AssersionError (OtherError ''assertion failed'' None)
                (AError (ErrorsNew ''boom''))) \<noteq> Some (ErrorsNew ''missing error details'')"
  by simp


lemma ErrorWithStatus_any:
  assumes "ErrorWithStatus_switch x = Some e" and "Error e = Some m"
  shows "fst (ErrorWithStatus st x s) = Returns"
    and "header (snd (ErrorWithStatus st x s)) =
           header s @ [(''Content-Type'', ''application/json'')]"
    and "status_codes (snd (ErrorWithStatus st x s)) = status_codes s @ [st]"
    and "body (snd (ErrorWithStatus st x s)) =
           body s @ [JObject [(''ok'', JBool False), (''message'', JString m)]]"
  using assms
  by (simp_all add: ErrorWithStatus_def slog_Error_def Header_Add_def WriteHeader_def
        Encode_def)

lemma ErrorWithStatus_switch_cases:
  "ErrorWithStatus_switch x =
     (case x of AString v \<Rightarrow> Some (ErrorsNew v) | AError e \<Rightarrow> Some e
      | _ \<Rightarrow> Some (ErrorsNew ''unknown error occured''))"
  by (cases x) simp_all

lemma ErrorWithStatus_switch_toErr:
  "(ErrorWithStatus_switch x = toErr x) = ((\<exists>v. x = AString v) \<or> (\<exists>e. x = AError e))"
  by (cases x) simp_all

text \<open>
  Claim C3, as amended. \<open>ErrorWithStatus\<close> normalises a string and an error value as
  \<open>toErr\<close> does: a string yields an error with that message, and an error value is used
  as it is; a \<open>httperror\<close> is an error value, and its message is the message of the error
  it wraps. On every other input \<open>ErrorWithStatus\<close> falls back to an error with the message
  "unknown error occured", where \<open>toErr\<close> falls back to "missing error details": the two
  agree exactly on strings and error values. The message of the written body is the
  message of the normalised error, at the given status.
\<close>

theorem ErrorWithStatus_normalizes:
  "ErrorWithStatus_switch x =
     (case x of AString v \<Rightarrow> Some (ErrorsNew v) | AError e \<Rightarrow> Some e
      | _ \<Rightarrow> Some (ErrorsNew ''unknown error occured''))
   \<and> (ErrorWithStatus_switch x = toErr x) = ((\<exists>v. x = AString v) \<or> (\<exists>e. x = AError e))
   \<and> ErrorWithStatus_switch (AError (Httperror st' (Some c))) = Some (Httperror st' (Some c))
   \<and> Error (Httperror st' (Some c)) = Error c
   \<and> (\<forall>e m. ErrorWithStatus_switch x = Some e \<and> Error e = Some m \<longrightarrow>
         fst (ErrorWithStatus st x s) = Returns
       \<and> status_codes (snd (ErrorWithStatus st x s)) = status_codes s @ [st]
       \<and> body (snd (ErrorWithStatus st x s)) =
           body s @ [JObject [(''ok'', JBool False), (''message'', JString m)]])"
proof -
  have written: "fst (ErrorWithStatus st x s) = Returns
       \<and> status_codes (snd (ErrorWithStatus st x s)) = status_codes s @ [st]
       \<and> body (snd (ErrorWithStatus st x s)) =
           body s @ [JObject [(''ok'', JBool False), (''message'', JString m)]]"
    if "ErrorWithStatus_switch x = Some e" and "Error e = Some m" for e m
    using ErrorWithStatus_any [OF that, of st s] by simp
  have own: "ErrorWithStatus_switch (AError (Httperror st' (Some c))) = Some (Httperror st' (Some c))"
      "Error (Httperror st' (Some c)) = Error c"
    by simp_all
  show ?thesis
    using ErrorWithStatus_switch_cases [of x] ErrorWithStatus_switch_toErr [of x] own written
    by blast
qed

theorem ErrorWithStatus_normalizes_witness:
  "body (snd (ErrorWithStatus 400 (AString ''invalid input'') fresh_world)) =
     [JObject [(''ok'', JBool False), (''message'', JString ''invalid input'')]]
   \<and> status_codes (snd (ErrorWithStatus 400 (AString ''invalid input'') fresh_world)) = [400]
   \<and> body (snd (ErrorWithStatus 404
        (AError (Httperror 404 (Some (ErrorsNew ''user not found'')))) fresh_world)) =
     [JObject [(''ok'', JBool False), (''message'', JString ''user not found'')]]"
  using ErrorWithStatus_normalizes [of "AString ''invalid input''" 0 "ErrorsNew []" 400 fresh_world]
    ErrorWithStatus_normalizes
      [of "AError (Httperror 404 (Some (ErrorsNew ''user not found'')))" 0 "ErrorsNew []" 404
          fresh_world]
  by (simp add: fresh_world_def)

theorem fallback_message_counterexample:
  "toErr (AInt 7) = Some (ErrorsNew ''missing error details'')
   \<and> ErrorWithStatus_switch (AInt 7) = Some (ErrorsNew ''unknown error occured'')
   \<and> ErrorWithStatus_switch (AInt 7) \<noteq> toErr (AInt 7)
   \<and> body (snd (ErrorWithStatus 400 (AInt 7) fresh_world)) =
       [JObject [(''ok'', JBool False), (''message'', JString ''unknown error occured'')]]
   \<and> body (snd (ErrorWithStatus 400 ANil fresh_world)) =
       [JObject [(''ok'', JBool False), (''message'', JString ''unknown error occured'')]]"
  by (simp add: ErrorWithStatus_def slog_Error_def Header_Add_def WriteHeader_def Encode_def
        fresh_world_def)

subsection \<open>The error value\<close>

lemma call_receiver: "snd (call m he) = he"
  by (cases m) simp_all

lemma calls_receiver: "snd (calls ms he) = he"
  by (induction ms) (auto split: prod.splits elim: call.elims)

lemma calls_nth:
  "i < length ms \<Longrightarrow> fst (calls ms he) ! i = fst (call (ms ! i) he)"
proof (induction ms arbitrary: i)
  case Nil
  then show ?case by simp
next
  case (Cons m ms)
  have step: "calls (m # ms) he = (fst (call m he) # fst (calls ms he), he)"
    using call_receiver [of m he] calls_receiver [of ms he]
    by (cases "call m he"; cases "calls ms he") auto
  show ?case
    using Cons step by (cases i) simp_all
qed

lemma Cause_part_002_nil:
  "Cause_part_002 (Httperror st (Some (OtherError m None))) = Some None"
  "Cause_part_002 (Httperror st None) = Some None"
  by simp_all

text \<open>
  Claim C8, as amended. A \<open>httperror\<close> made by \<open>NewError\<close> or by an assertion does not
  change: a method call leaves the receiver as it was, every later call of \<open>Status\<close>
  returns the status given at construction, and every later call of \<open>Cause\<close> the error
  given at construction. The cause of a value made by an assertion is never nil (it is a
  result of \<open>toErr\<close>); the cause of a value made by \<open>NewError\<close> is nil exactly when
  \<open>NewError\<close> was given a nil error, which it stores as it is.
\<close>

theorem httperror_immutable:
  "NewError st e = Some (HttperrorPtr st e)
   \<and> snd (calls ms (HttperrorPtr st e)) = HttperrorPtr st e
   \<and> snd (calls ms (Httperror st e)) = Httperror st e
   \<and> (\<forall>i. i < length ms \<and> ms ! i = CallStatus \<longrightarrow>
         fst (calls ms (HttperrorPtr st e)) ! i = RInt st
       \<and> fst (calls ms (Httperror st e)) ! i = RInt st)
   \<and> (\<forall>i. i < length ms \<and> ms ! i = CallCause \<longrightarrow>
         fst (calls ms (HttperrorPtr st e)) ! i = RError e
       \<and> fst (calls ms (Httperror st e)) ! i = RError e)
   \<and> (Cause (HttperrorPtr st e) = Some None) = (e = None)
   \<and> fst (AssertWithStatus False st x s) = Panics (AError (Httperror st (toErr x)))
   \<and> (x \<noteq> ANil \<longrightarrow>
        fst (AssertErrorIsNilWithStatus st x s) = Panics (AError (Httperror st (toErr x))))
   \<and> toErr x \<noteq> None
   \<and> Cause (Httperror st (toErr x)) \<noteq> Some None"
proof -
  have total: "toErr x \<noteq> None"
    by (cases x) simp_all
  have status: "fst (calls ms (HttperrorPtr st e)) ! i = RInt st
       \<and> fst (calls ms (Httperror st e)) ! i = RInt st"
    if "i < length ms \<and> ms ! i = CallStatus" for i
    using that calls_nth [of i ms] by simp
  have cause: "fst (calls ms (HttperrorPtr st e)) ! i = RError e
       \<and> fst (calls ms (Httperror st e)) ! i = RError e"
    if "i < length ms \<and> ms ! i = CallCause" for i
    using that calls_nth [of i ms] by simp
  have asserted: "fst (AssertWithStatus False st x s) = Panics (AError (Httperror st (toErr x)))"
    by (simp add: AssertWithStatus_def)
  have asserted_nil: "x \<noteq> ANil \<longrightarrow>
        fst (AssertErrorIsNilWithStatus st x s) = Panics (AError (Httperror st (toErr x)))"
    by (simp add: AssertErrorIsNilWithStatus_def)
  have made: "NewError st e = Some (HttperrorPtr st e)"
    by (simp add: NewError_def)
  have null: "(Cause (HttperrorPtr st e) = Some None) = (e = None)"
    by simp
  have nonnull: "Cause (Httperror st (toErr x)) \<noteq> Some None"
    using total by simp
  show ?thesis
    using made calls_receiver [of ms "HttperrorPtr st e"] calls_receiver [of ms "Httperror st e"]
      status cause null asserted asserted_nil total nonnull
    by blast
qed

theorem httperror_immutable_witness:
  "fst (calls [CallStatus, CallError, CallCause, CallStatus]
          (HttperrorPtr 404 (Some (ErrorsNew ''user not found'')))) ! 3 = RInt 404
   \<and> fst (calls [CallStatus, CallError, CallCause, CallStatus]
          (HttperrorPtr 404 (Some (ErrorsNew ''user not found'')))) ! 2 =
       RError (Some (ErrorsNew ''user not found''))
   \<and> snd (calls [CallStatus, CallError, CallCause, CallStatus]
          (HttperrorPtr 404 (Some (ErrorsNew ''user not found'')))) =
       HttperrorPtr 404 (Some (ErrorsNew ''user not found''))
   \<and> fst (AssertErrorIsNilWithStatus 400 (AError (ErrorsNew ''eof'')) fresh_world) =
       Panics (AError (Httperror 400 (Some (ErrorsNew ''eof''))))"
  using httperror_immutable
      [of 404 "Some (ErrorsNew ''user not found'')"
          "[CallStatus, CallError, CallCause, CallStatus]" "AError (ErrorsNew ''eof'')"
          fresh_world]
    httperror_immutable
      [of 400 "Some (ErrorsNew ''user not found'')"
          "[CallStatus, CallError, CallCause, CallStatus]" "AError (ErrorsNew ''eof'')"
          fresh_world]
  by simp

theorem cause_null_counterexample:
  "NewError 404 None = Some (HttperrorPtr 404 None)
   \<and> Cause (HttperrorPtr 404 None) = Some None
   \<and> Cause_part_002 (HttperrorPtr 404 None) = Some None
   \<and> Error (HttperrorPtr 404 None) = None"
  by (simp add: NewError_def)

subsection \<open>The assertions\<close>

text \<open>
  Claim C5. Each assertion panics exactly when its check fails (the condition is false
  for \<open>Assert\<close> and \<open>AssertWithStatus\<close>, the error is non-nil for \<open>AssertErrorIsNil\<close> and
  \<open>AssertErrorIsNilWithStatus\<close>), and the value it panics with is a \<open>httperror\<close> whose
  status is the caller's (500 for the bare forms) and whose cause is the normalised
  input (the error itself for \<open>AssertErrorIsNil\<close>). When the check succeeds the assertion
  returns and leaves the world as it was: no log line, no write to the sink. No
  assertion writes to the sink in any case.
\<close>

theorem assertions_abandon_exactly_on_failure:
  "(fst (AssertWithStatus c st e s) = Returns) = c
   \<and> (fst (Assert c e s) = Returns) = c
   \<and> (fst (AssertErrorIsNilWithStatus st e s) = Returns) = (e = ANil)
   \<and> (fst (AssertErrorIsNil err s) = Returns) = (err = None)
   \<and> (c \<longrightarrow> AssertWithStatus c st e s = (Returns, s) \<and> Assert c e s = (Returns, s))
   \<and> AssertErrorIsNilWithStatus st ANil s = (Returns, s)
   \<and> AssertErrorIsNil None s = (Returns, s)
   \<and> (\<not> c \<longrightarrow>
        (\<exists>he. fst (AssertWithStatus c st e s) = Panics (AError he)
           \<and> Status he = Some st \<and> Cause he = Some (toErr e))
      \<and> (\<exists>he. fst (Assert c e s) = Panics (AError he)
           \<and> Status he = Some 500 \<and> Cause he = Some (toErr e)))
   \<and> (e \<noteq> ANil \<longrightarrow>
        (\<exists>he. fst (AssertErrorIsNilWithStatus st e s) = Panics (AError he)
           \<and> Status he = Some st \<and> Cause he = Some (toErr e)))
   \<and> (\<forall>x. err = Some x \<longrightarrow>
        (\<exists>he. fst (AssertErrorIsNil err s) = Panics (AError he)
           \<and> Status he = Some 500 \<and> Cause he = Some (Some x)))
   \<and> header (snd (AssertWithStatus c st e s)) = header s
   \<and> status_codes (snd (AssertWithStatus c st e s)) = status_codes s
   \<and> body (snd (AssertWithStatus c st e s)) = body s
   \<and> header (snd (AssertErrorIsNilWithStatus st e s)) = header s
   \<and> status_codes (snd (AssertErrorIsNilWithStatus st e s)) = status_codes s
   \<and> body (snd (AssertErrorIsNilWithStatus st e s)) = body s"
proof -
  have nil: "(iface err = ANil) = (err = None)"
    by (cases err) simp_all
  show ?thesis
    using nil
    by (auto simp add: AssertWithStatus_def Assert_def AssertErrorIsNilWithStatus_def
          AssertErrorIsNil_def log_Printf_def)
qed

theorem assertions_abandon_exactly_on_failure_witness:
  "fst (AssertWithStatus False 403 (AString ''user account is disabled'') fresh_world) =
     Panics (AError (Httperror 403 (Some (ErrorsNew ''user account is disabled''))))
   \<and> Assert True (AString ''user not found'') fresh_world = (Returns, fresh_world)
   \<and> fst (AssertErrorIsNil (Some (ErrorsNew ''eof'')) fresh_world) =
     Panics (AError (Httperror 500 (Some (ErrorsNew ''eof''))))"
  using assertions_abandon_exactly_on_failure
      [of False 403 "AString ''user account is disabled''" fresh_world "Some (ErrorsNew ''eof'')"]
    assertions_abandon_exactly_on_failure
      [of True 500 "AString ''user not found''" fresh_world None]
  by (simp add: AssertWithStatus_def Assert_def AssertErrorIsNilWithStatus_def
        AssertErrorIsNil_def)

subsection \<open>The response writers\<close>

text \<open>
  Claim C9. Every bare form equals its \<open>WithStatus\<close> counterpart at the default status:
  \<open>Error\<close> (here \<open>Error_resp\<close>) and \<open>InternalError\<close> at 500, \<open>Json\<close> and \<open>Message\<close> at 200,
  and \<open>OK\<close> is \<open>JsonWithStatus\<close> at 200 with the object \<open>{ok: true}\<close>.
\<close>

theorem bare_forms_use_default_status:
  "Error_resp e s = ErrorWithStatus 500 e s
   \<and> InternalError err s = InternalErrorWithStatus 500 err s
   \<and> Json p s = JsonWithStatus 200 p s
   \<and> Message m s = MessageWithStatus 200 m s
   \<and> OK s = JsonWithStatus 200 (JObject [(''ok'', JBool True)]) s"
  by (simp add: Error_resp_def InternalError_def Json_def Message_def MessageWithStatus_def OK_def)

lemma InternalErrorWithStatus_sink:
  assumes "Error e = Some m"
  shows "fst (InternalErrorWithStatus st (Some e) s) = Returns"
    and "header (snd (InternalErrorWithStatus st (Some e) s)) =
           header s @ [(''Content-Type'', ''application/json'')]"
    and "status_codes (snd (InternalErrorWithStatus st (Some e) s)) = status_codes s @ [st]"
    and "body (snd (InternalErrorWithStatus st (Some e) s)) =
           body s @ [JObject [(''ok'', JBool False),
                              (''message'', JString ''internal server error'')]]"
  using assms
  by (cases "Cause e";
      simp add: InternalErrorWithStatus_def slog_Error_def Header_Add_def WriteHeader_def
        Encode_def)+

lemma InternalError_sink:
  assumes "Error e = Some m"
  shows "fst (InternalError (Some e) s) = Returns"
    and "status_codes (snd (InternalError (Some e) s)) = status_codes s @ [500]"
    and "body (snd (InternalError (Some e) s)) =
           body s @ [JObject [(''ok'', JBool False),
                              (''message'', JString ''internal server error'')]]"
  using InternalErrorWithStatus_sink [OF assms, of 500 s] by (simp_all add: InternalError_def)

lemma InternalError_outcome:
  "fst (InternalError err s) = Returns \<or> fst (InternalError err s) = Panics nil_dereference"
  by (auto simp add: InternalError_def InternalErrorWithStatus_def Let_def split: option.splits)

subsection \<open>The recovery middleware\<close>







lemma Assersion_unclassified:
  assumes "h s = (Panics r, s1)" and "r \<noteq> ANil" and "as_HttpError r = None"
  shows "MiddlewareHTTPAssersionRecoverer h s =
           \<lparr>result = Panics r, final = slog_Error ''update'' [(''error'', r)] s1, cancel_calls = 0\<rparr>"
  using assms
  by (simp add: MiddlewareHTTPAssersionRecoverer_def
        MiddlewareHTTPAssersionRecoverer_deferred_def)

lemma Assertion_unclassified:
  assumes "h s = (Panics r, s1)" and "r \<noteq> ANil" and "as_HttpError r = None"
  shows "MiddlewareHTTPAssertionRecoverer h s =
           \<lparr>result = Panics r, final = slog_Error ''unexpected panic'' [(''error'', r)] s1,
            cancel_calls = 0\<rparr>"
  using assms
  by (simp add: MiddlewareHTTPAssertionRecoverer_def
        MiddlewareHTTPAssertionRecoverer_deferred_def)











lemma Assersion_cancel_calls:
  "cancel_calls (MiddlewareHTTPAssersionRecoverer h s) =
     (case h s of
        (Returns, s1) \<Rightarrow> 0
      | (Panics r, s1) \<Rightarrow>
          (case as_HttpError r of
             None \<Rightarrow> 0
           | Some (herr, st) \<Rightarrow> if fst (respond herr st s1) = Returns then 1 else 0))"
proof (cases "h s")
  case (Pair out s1)
  show ?thesis
  proof (cases out)
    case Returns
    with Pair show ?thesis
      by (simp add: MiddlewareHTTPAssersionRecoverer_def
            MiddlewareHTTPAssersionRecoverer_deferred_def)
  next
    case (Panics r)
    show ?thesis
    proof (cases "as_HttpError r")
      case None
      with Pair Panics show ?thesis
        by (simp add: MiddlewareHTTPAssersionRecoverer_def
              MiddlewareHTTPAssersionRecoverer_deferred_def)
    next
      case (Some p)
      then have "r \<noteq> ANil" by (cases r) simp_all
      with Pair Panics Some show ?thesis
        by (cases p; cases "respond (fst p) (snd p) s1"; cases "fst (respond (fst p) (snd p) s1)")
           (auto simp add: MiddlewareHTTPAssersionRecoverer_def
              MiddlewareHTTPAssersionRecoverer_deferred_def cancel_def)
    qed
  qed
qed

lemma log_Printf_sink:
  "header (log_Printf f args s) = header s"
  "status_codes (log_Printf f args s) = status_codes s"
  "body (log_Printf f args s) = body s"
  by (simp_all add: log_Printf_def)

lemma alt_run:
  assumes "h s = (Panics r, s1)" and "r \<noteq> ANil"
  shows "result (MiddlewareHTTPAssertionRecoverer_alt sp h s) =
           fst (recovered_switch sp r (log_Printf ''checking the error object %T'' [r] s1))"
    and "final (MiddlewareHTTPAssertionRecoverer_alt sp h s) =
           snd (recovered_switch sp r (log_Printf ''checking the error object %T'' [r] s1))"
  using assms
  by (simp_all add: MiddlewareHTTPAssertionRecoverer_alt_def
        MiddlewareHTTPAssertionRecoverer_alt_deferred_def cancel_def split: prod.splits)

lemma alt_releases_once: "cancel_calls (MiddlewareHTTPAssertionRecoverer_alt sp h s) = 1"
  by (cases "h s"; cases "fst (h s)")
     (auto simp add: MiddlewareHTTPAssertionRecoverer_alt_def
        MiddlewareHTTPAssertionRecoverer_alt_deferred_def cancel_def split: prod.splits)

lemma recovered_switch_unclassified:
  assumes "as_HttpError r = None"
  shows "fst (recovered_switch sp r s) \<noteq> Panics r"
proof (cases r)
  case (AError e)
  then have "Status e = None" using assms by (simp split: option.splits)
  then show ?thesis
    using AError by (cases e) (simp_all add: InternalError_sink)
next
  case (AssersionError p u)
  then show ?thesis
    using InternalError_outcome [of "Some p" s] by (auto simp add: nil_dereference_def)
qed (simp_all add: InternalError_sink)

lemma recovered_switch_answers_500:
  assumes "as_HttpError r = None" and "\<forall>p u. r \<noteq> AssersionError p u"
  shows "fst (recovered_switch sp r s) = Returns
       \<and> status_codes (snd (recovered_switch sp r s)) = status_codes s @ [500]
       \<and> body (snd (recovered_switch sp r s)) =
           body s @ [JObject [(''ok'', JBool False),
                              (''message'', JString ''internal server error'')]]"
proof (cases r)
  case (AError e)
  then have "Status e = None" using assms by (simp split: option.splits)
  then show ?thesis
    using AError by (cases e) (simp_all add: InternalError_sink)
next
  case (AssersionError p u)
  then show ?thesis using assms(2) by simp
qed (simp_all add: InternalError_sink)

text \<open>
  Claim C4, as amended. When the recovered value is not nil and is not a HttpError (it
  lacks the methods of the interface; who made it does not matter),
  \<open>MiddlewareHTTPAssersionRecoverer\<close> and the first \<open>MiddlewareHTTPAssertionRecoverer\<close>
  write nothing to the sink, log one line that carries the value, and panic again with
  the very same value. The second \<open>MiddlewareHTTPAssertionRecoverer\<close> never panics again
  with the value: unless the value is an \<open>assert.AssersionError\<close>, it returns normally
  and has written status 500 and the body \<open>{ok: false, message: "internal server error"}\<close>.
\<close>

theorem unclassified_panic_is_rethrown:
  assumes "h s = (Panics r, s1)" and "r \<noteq> ANil" and "as_HttpError r = None"
  shows "MiddlewareHTTPAssersionRecoverer h s =
           \<lparr>result = Panics r,
            final = s1\<lparr>logs := logs s1 @ [SlogError ''update'' [(''error'', r)]]\<rparr>,
            cancel_calls = 0\<rparr>
       \<and> MiddlewareHTTPAssertionRecoverer h s =
           \<lparr>result = Panics r,
            final = s1\<lparr>logs := logs s1 @ [SlogError ''unexpected panic'' [(''error'', r)]]\<rparr>,
            cancel_calls = 0\<rparr>
       \<and> result (MiddlewareHTTPAssertionRecoverer_alt sp h s) \<noteq> Panics r
       \<and> ((\<forall>p u. r \<noteq> AssersionError p u) \<longrightarrow>
             result (MiddlewareHTTPAssertionRecoverer_alt sp h s) = Returns
           \<and> status_codes (final (MiddlewareHTTPAssertionRecoverer_alt sp h s)) =
               status_codes s1 @ [500]
           \<and> body (final (MiddlewareHTTPAssertionRecoverer_alt sp h s)) =
               body s1 @ [JObject [(''ok'', JBool False),
                                   (''message'', JString ''internal server error'')]])"
proof -
  have a: "MiddlewareHTTPAssersionRecoverer h s =
           \<lparr>result = Panics r,
            final = s1\<lparr>logs := logs s1 @ [SlogError ''update'' [(''error'', r)]]\<rparr>,
            cancel_calls = 0\<rparr>"
    using Assersion_unclassified [of h s r s1] assms by (simp add: slog_Error_def)
  have b: "MiddlewareHTTPAssertionRecoverer h s =
           \<lparr>result = Panics r,
            final = s1\<lparr>logs := logs s1 @ [SlogError ''unexpected panic'' [(''error'', r)]]\<rparr>,
            cancel_calls = 0\<rparr>"
    using Assertion_unclassified [of h s r s1] assms by (simp add: slog_Error_def)
  have c: "result (MiddlewareHTTPAssertionRecoverer_alt sp h s) \<noteq> Panics r"
    using alt_run(1) [of h s r s1 sp] assms recovered_switch_unclassified [of r sp] by simp
  have d: "result (MiddlewareHTTPAssertionRecoverer_alt sp h s) = Returns
           \<and> status_codes (final (MiddlewareHTTPAssertionRecoverer_alt sp h s)) =
               status_codes s1 @ [500]
           \<and> body (final (MiddlewareHTTPAssertionRecoverer_alt sp h s)) =
               body s1 @ [JObject [(''ok'', JBool False),
                                   (''message'', JString ''internal server error'')]]"
    if "\<forall>p u. r \<noteq> AssersionError p u"
    using alt_run [of h s r s1 sp] assms(1,2)
      recovered_switch_answers_500 [OF assms(3) that, of sp
        "log_Printf ''checking the error object %T'' [r] s1"]
    by (simp add: log_Printf_sink)
  show ?thesis using a b c d by blast
qed

theorem unclassified_panic_is_rethrown_witness:
  "result (MiddlewareHTTPAssersionRecoverer (panics_with (AString ''boom'')) fresh_world) =
     Panics (AString ''boom'')
   \<and> status_codes (final (MiddlewareHTTPAssersionRecoverer
        (panics_with (AString ''boom'')) fresh_world)) = []
   \<and> body (final (MiddlewareHTTPAssersionRecoverer
        (panics_with (AString ''boom'')) fresh_world)) = []
   \<and> logs (final (MiddlewareHTTPAssersionRecoverer
        (panics_with (AString ''boom'')) fresh_world)) =
       [SlogError ''update'' [(''error'', AString ''boom'')]]
   \<and> status_codes (final (MiddlewareHTTPAssertionRecoverer_alt no_formatting
        (panics_with (AString ''boom'')) fresh_world)) = [500]"
  using unclassified_panic_is_rethrown
      [of "panics_with (AString ''boom'')" fresh_world "AString ''boom''" fresh_world
          no_formatting]
  by (simp add: panics_with_def fresh_world_def)

theorem rethrow_by_origin_counterexample:
  "result (MiddlewareHTTPAssersionRecoverer
             (panics_with (AError (ForeignHttpError 404 ''nope'' None))) fresh_world) = Returns
   \<and> status_codes (final (MiddlewareHTTPAssersionRecoverer
             (panics_with (AError (ForeignHttpError 404 ''nope'' None))) fresh_world)) = [404]
   \<and> body (final (MiddlewareHTTPAssersionRecoverer
             (panics_with (AError (ForeignHttpError 404 ''nope'' None))) fresh_world)) =
       [JObject [(''ok'', JBool False), (''message'', JString ''nope'')]]
   \<and> result (MiddlewareHTTPAssertionRecoverer_alt no_formatting
             (panics_with (AString ''boom'')) fresh_world) = Returns
   \<and> status_codes (final (MiddlewareHTTPAssertionRecoverer_alt no_formatting
             (panics_with (AString ''boom'')) fresh_world)) = [500]
   \<and> body (final (MiddlewareHTTPAssertionRecoverer_alt no_formatting
             (panics_with (AString ''boom'')) fresh_world)) =
       [JObject [(''ok'', JBool False), (''message'', JString ''internal server error'')]]"
  by (simp add: MiddlewareHTTPAssersionRecoverer_def
        MiddlewareHTTPAssersionRecoverer_deferred_def MiddlewareHTTPAssertionRecoverer_alt_def
        MiddlewareHTTPAssertionRecoverer_alt_deferred_def cancel_def
        panics_with_def fresh_world_def respond_def ErrorWithStatus_def InternalError_def
        InternalErrorWithStatus_def slog_Error_def log_Printf_def Header_Add_def
        WriteHeader_def Encode_def no_formatting_def)

text \<open>
  Claim C2. The scope made at entry is to be released exactly once on every path.
  \<open>MiddlewareHTTPAssersionRecoverer\<close> and the first \<open>MiddlewareHTTPAssertionRecoverer\<close>
  call \<open>cancel\<close> only after they have answered a HttpError: when the handler returns
  normally, and when it panics with a value they re-raise, \<open>cancel\<close> is not called at all.
  The second \<open>MiddlewareHTTPAssertionRecoverer\<close>, whose deferred function starts with
  \<open>defer cancel()\<close>, calls it once on each of these paths.
\<close>

theorem cancel_not_released_on_every_path:
  "cancel_calls (MiddlewareHTTPAssersionRecoverer returns_normally s) = 0
   \<and> cancel_calls (MiddlewareHTTPAssersionRecoverer (panics_with (AString ''boom'')) s) = 0
   \<and> cancel_calls (MiddlewareHTTPAssertionRecoverer returns_normally s) = 0
   \<and> cancel_calls (MiddlewareHTTPAssertionRecoverer (panics_with (AString ''boom'')) s) = 0
   \<and> cancel_calls (MiddlewareHTTPAssersionRecoverer
        (AssertWithStatus False 404 (AString ''user not found'')) s) = 1
   \<and> cancel_calls (MiddlewareHTTPAssertionRecoverer_alt sp returns_normally s) = 1
   \<and> cancel_calls (MiddlewareHTTPAssertionRecoverer_alt sp (panics_with (AString ''boom'')) s) = 1"
  by (simp add: MiddlewareHTTPAssersionRecoverer_def
        MiddlewareHTTPAssersionRecoverer_deferred_def MiddlewareHTTPAssertionRecoverer_def
        MiddlewareHTTPAssertionRecoverer_deferred_def cancel_def
        alt_releases_once returns_normally_def panics_with_def AssertWithStatus_def
        respond_def ErrorWithStatus_def Let_def)

end
